theory Spec2Isabelle
  imports Main "HOL-Library.Char_ord" "HOL-Library.List_Lexorder"
begin

unbundle bit_operations_syntax

section \<open>JavaScript values, truthiness and property lookup\<close>

text \<open>
  The program is a React component (\<^verbatim>\<open>App.jsx\<close>) with a handful of pure helpers.
  A JavaScript string is modelled as a \<^typ>\<open>string\<close>; one \<^typ>\<open>char\<close> stands for one
  code unit below 256, which covers every string the helpers treat specially.
  An absent argument (\<^verbatim>\<open>undefined\<close> or \<^verbatim>\<open>null\<close>) is \<^term>\<open>None\<close>.
\<close>

text \<open>The fields of a state's entry that the component reads (spec section 3).\<close>

record state_record =
  name :: string
  status :: "string option"
  summary :: string
  keyLaws :: "string list"
  recentDevelopments :: string
  sources :: "string list"
  lastUpdated :: "string option"

text \<open>
  The values a lookup in a plain object can produce here: nothing, a string, a state
  entry, or a member that every plain object inherits from \<^verbatim>\<open>Object.prototype\<close>
  (a built-in function, or the prototype object itself for \<^verbatim>\<open>__proto__\<close>).
\<close>

datatype jsval = Undefined | Str string | Rec state_record | Inherited string

fun truthy :: "jsval \<Rightarrow> bool" where
  "truthy Undefined = False"
| "truthy (Str s) = (s \<noteq> [])"
| "truthy (Rec r) = True"
| "truthy (Inherited k) = True"

text \<open>\<^verbatim>\<open>a || b\<close>\<close>

definition js_or :: "jsval \<Rightarrow> jsval \<Rightarrow> jsval" where
  "js_or a b = (if truthy a then a else b)"

text \<open>
  The property names of \<^verbatim>\<open>Object.prototype\<close> (ECMAScript, with Annex B). An object
  literal and an object parsed from JSON both have this prototype, so \<^verbatim>\<open>obj[key]\<close>
  finds these names when \<^verbatim>\<open>obj\<close> has no own property \<^verbatim>\<open>key\<close>.
\<close>

definition Object_prototype_names :: "string list" where
  "Object_prototype_names =
     [''constructor'', ''hasOwnProperty'', ''isPrototypeOf'', ''propertyIsEnumerable'',
      ''toLocaleString'', ''toString'', ''valueOf'', ''__proto__'',
      ''__defineGetter__'', ''__defineSetter__'', ''__lookupGetter__'', ''__lookupSetter__'']"

definition Object_prototype :: "string \<Rightarrow> jsval" where
  "Object_prototype k = (if k \<in> set Object_prototype_names then Inherited k else Undefined)"

text \<open>\<^verbatim>\<open>obj[key]\<close> on a plain object whose own properties are \<open>obj\<close>.\<close>

definition get_prop :: "(string \<rightharpoonup> jsval) \<Rightarrow> string \<Rightarrow> jsval" where
  "get_prop obj k = (case obj k of Some v \<Rightarrow> v | None \<Rightarrow> Object_prototype k)"

section \<open>Status normalizer\<close>

text \<open>
  \<^verbatim>\<open>STATUS_META\<close>: the four canonical statuses, each with its base colour (the other
  members of an entry are labels and chip colours of the view).
\<close>

definition STATUS_META :: "(string \<times> string) list" where
  "STATUS_META =
     [(''clear_friendly'', ''#15803d''), (''clear_restrictive'', ''#1e3a8a''),
      (''pending'', ''#a16207''), (''federal_default'', ''#4b5563'')]"

text \<open>\<^verbatim>\<open>Object.hasOwn(STATUS_META, input)\<close>: own properties only.\<close>

definition hasOwn_STATUS_META :: "string \<Rightarrow> bool" where
  "hasOwn_STATUS_META k = (k \<in> set (map fst STATUS_META))"

definition STATUS_OVERRIDES_BY_STATE :: "string \<rightharpoonup> jsval" where
  "STATUS_OVERRIDES_BY_STATE =
     [''FL'' \<mapsto> Str ''pending'', ''HI'' \<mapsto> Str ''pending'', ''AZ'' \<mapsto> Str ''pending'']"

definition legacyMap :: "string \<rightharpoonup> jsval" where
  "legacyMap =
     [''friendly'' \<mapsto> Str ''clear_friendly'', ''restrictive'' \<mapsto> Str ''clear_restrictive'',
      ''none'' \<mapsto> Str ''federal_default'', ''unclear'' \<mapsto> Str ''pending'']"

text \<open>
  \<^verbatim>\<open>
  function normalizeStatus(input, stateAbbr) {
    if (stateAbbr && STATUS_OVERRIDES_BY_STATE[stateAbbr]) {
      return STATUS_OVERRIDES_BY_STATE[stateAbbr];
    }
    if (!input) return "federal_default";
    if (Object.hasOwn(STATUS_META, input)) return input;
    const legacyMap = { ... };
    return legacyMap[input] || "federal_default";
  }
  \<close>
  \<open>override\<close> is the value of the guard \<^verbatim>\<open>stateAbbr && STATUS_OVERRIDES_BY_STATE[stateAbbr]\<close>
  up to truthiness: an absent or empty abbreviation is falsy and the table is not read.
\<close>

definition normalizeStatus :: "string option \<Rightarrow> string option \<Rightarrow> jsval" where
  "normalizeStatus input stateAbbr =
     (let override =
        (case stateAbbr of
           None \<Rightarrow> Undefined
         | Some a \<Rightarrow> if a = [] then Undefined else get_prop STATUS_OVERRIDES_BY_STATE a)
      in if truthy override then override
         else (case input of
                 None \<Rightarrow> Str ''federal_default''
               | Some s \<Rightarrow>
                   if s = [] then Str ''federal_default''
                   else if hasOwn_STATUS_META s then Str s
                   else js_or (get_prop legacyMap s) (Str ''federal_default'')))"

section \<open>Colour deriver\<close>

text \<open>
  The white space \<^verbatim>\<open>parseInt\<close> skips (ECMAScript \<^verbatim>\<open>StrWhiteSpaceChar\<close>), as far as it
  lies below code unit 256: tab, line feed, vertical tab, form feed, carriage return,
  space and no-break space.
\<close>

definition is_white_space :: "char \<Rightarrow> bool" where
  "is_white_space c = ((of_char c :: nat) \<in> {9, 10, 11, 12, 13, 32, 160})"

text \<open>Radix-16 digits: \<^verbatim>\<open>0-9\<close>, \<^verbatim>\<open>a-f\<close> and \<^verbatim>\<open>A-F\<close>.\<close>

definition hex_val :: "char \<Rightarrow> nat option" where
  "hex_val c =
     (let n = (of_char c :: nat) in
      if 48 \<le> n \<and> n \<le> 57 then Some (n - 48)
      else if 97 \<le> n \<and> n \<le> 102 then Some (n - 87)
      else if 65 \<le> n \<and> n \<le> 70 then Some (n - 55)
      else None)"

definition is_hex_digit :: "char \<Rightarrow> bool" where
  "is_hex_digit c = (hex_val c \<noteq> None)"

definition digit16 :: "char \<Rightarrow> nat" where
  "digit16 c = (case hex_val c of Some v \<Rightarrow> v | None \<Rightarrow> 0)"

text \<open>The value of a run of radix-16 digits, most significant first.\<close>

definition radix16 :: "string \<Rightarrow> nat" where
  "radix16 ds = foldl (\<lambda>acc c. 16 * acc + digit16 c) 0 ds"

text \<open>
  \<^verbatim>\<open>Number.parseInt(str, 16)\<close>, with \<^term>\<open>None\<close> for \<^verbatim>\<open>NaN\<close>: leading white space is
  skipped, then one sign, then one \<^verbatim>\<open>0x\<close> or \<^verbatim>\<open>0X\<close>; the digits that follow are read up
  to the first character that is not one, and the rest of the string is ignored. Only
  a string with no digit at that place gives \<^verbatim>\<open>NaN\<close>.
\<close>

definition parseInt16 :: "string \<Rightarrow> int option" where
  "parseInt16 str =
     (let S = dropWhile is_white_space str;
          sign = (case S of [] \<Rightarrow> 1 | c # _ \<Rightarrow> if c = CHR ''-'' then - 1 else (1 :: int));
          S1 = (case S of [] \<Rightarrow> S
                | c # rest \<Rightarrow> if c = CHR ''+'' \<or> c = CHR ''-'' then rest else S);
          S2 = (case S1 of
                  a # b # rest \<Rightarrow>
                    if a = CHR ''0'' \<and> (b = CHR ''x'' \<or> b = CHR ''X'') then rest else S1
                | _ \<Rightarrow> S1);
          Z = takeWhile is_hex_digit S2
      in if Z = [] then None else Some (sign * int (radix16 Z)))"

text \<open>\<^verbatim>\<open>n.toString(16)\<close> for an integer: lower-case digits, no leading zero.\<close>

definition hex_char :: "nat \<Rightarrow> char" where
  "hex_char d = ''0123456789abcdef'' ! d"

fun digits16 :: "nat \<Rightarrow> string" where
  "digits16 n = (if n < 16 then [hex_char n] else digits16 (n div 16) @ [hex_char (n mod 16)])"

declare digits16.simps [simp del]

definition toString16 :: "int \<Rightarrow> string" where
  "toString16 i = (if i < 0 then CHR ''-'' # digits16 (nat (- i)) else digits16 (nat i))"

text \<open>\<^verbatim>\<open>s.padStart(n, c)\<close> for a one-character filler.\<close>

definition padStart :: "nat \<Rightarrow> char \<Rightarrow> string \<Rightarrow> string" where
  "padStart n c s = replicate (n - length s) c @ s"

definition clamp :: "int \<Rightarrow> int" where
  "clamp v = min 255 (max 0 v)"

text \<open>
  \<^verbatim>\<open>
  function shiftHexColor(hex, amount) {
    const normalized = hex.replace("#", "");
    if (normalized.length !== 6) return hex;
    const num = Number.parseInt(normalized, 16);
    if (Number.isNaN(num)) return hex;
    const clamp = (value) => Math.min(255, Math.max(0, value));
    const r = clamp((num >> 16) + amount);
    const g = clamp(((num >> 8) & 0x00ff) + amount);
    const b = clamp((num & 0x0000ff) + amount);
    return `#${(r << 16 | g << 8 | b).toString(16).padStart(6, "0")}`;
  }
  \<close>
  \<^verbatim>\<open>replace\<close> with a string pattern removes the first \<^verbatim>\<open>#\<close>, wherever it stands. The
  amount is an integer. \<open>num\<close> comes from at most six digits, so it lies within 32 bits
  and the shifts and masks of JavaScript act on it as on an integer in two's complement;
  \<open>r\<close>, \<open>g\<close> and \<open>b\<close> are between 0 and 255.
\<close>

definition shiftHexColor :: "string \<Rightarrow> int \<Rightarrow> string" where
  "shiftHexColor hex amount =
     (let normalized = remove1 CHR ''#'' hex in
      if length normalized \<noteq> 6 then hex
      else case parseInt16 normalized of
             None \<Rightarrow> hex
           | Some num \<Rightarrow>
               let r = clamp (drop_bit 16 num + amount);
                   g = clamp ((drop_bit 8 num AND 255) + amount);
                   b = clamp ((num AND 255) + amount)
               in CHR ''#'' # padStart 6 CHR ''0'' (toString16 ((push_bit 16 r OR push_bit 8 g) OR b)))"


text \<open>
  The reading of the colour the specification gives: a well-formed input is six radix-16
  digits with an optional leading \<^verbatim>\<open>#\<close>; the digits are three bytes, red, green and
  blue, two digits each; a byte is written back as two lower-case digits.
\<close>

definition well_formed_hex :: "string \<Rightarrow> bool" where
  "well_formed_hex hex =
     (case hex of
        [] \<Rightarrow> False
      | c # rest \<Rightarrow>
          if c = CHR ''#'' then length rest = 6 \<and> list_all is_hex_digit rest
          else length hex = 6 \<and> list_all is_hex_digit hex)"

definition hex_body :: "string \<Rightarrow> string" where
  "hex_body hex = (case hex of [] \<Rightarrow> [] | c # rest \<Rightarrow> if c = CHR ''#'' then rest else hex)"

definition channel :: "string \<Rightarrow> nat \<Rightarrow> int" where
  "channel body i = int (16 * digit16 (body ! i) + digit16 (body ! (i + 1)))"

definition hex_byte :: "int \<Rightarrow> string" where
  "hex_byte v = [hex_char (nat v div 16), hex_char (nat v mod 16)]"

definition recompose :: "string \<Rightarrow> int \<Rightarrow> string" where
  "recompose hex amount =
     (let body = hex_body hex
      in CHR ''#'' # hex_byte (clamp (channel body 0 + amount))
           @ hex_byte (clamp (channel body 2 + amount))
           @ hex_byte (clamp (channel body 4 + amount)))"

text \<open>The \<open>k\<close> low radix-16 digits of a number, leading zeros kept.\<close>

fun fixed16 :: "nat \<Rightarrow> nat \<Rightarrow> string" where
  "fixed16 0 n = []"
| "fixed16 (Suc k) n = fixed16 k (n div 16) @ [hex_char (n mod 16)]"



section \<open>Region resolver\<close>



definition digit_char :: "nat \<Rightarrow> char" where
  "digit_char d = ''0123456789'' ! d"

fun digits10 :: "nat \<Rightarrow> string" where
  "digits10 n = (if n < 10 then [digit_char n] else digits10 (n div 10) @ [digit_char (n mod 10)])"

declare digits10.simps [simp del]



text \<open>A table of strings as a plain object.\<close>

definition string_table :: "(string \<rightharpoonup> string) \<Rightarrow> (string \<rightharpoonup> jsval)" where
  "string_table t = (\<lambda>k. map_option Str (t k))"



section \<open>Source label formatter\<close>

text \<open>
  \<^verbatim>\<open>new URL(source)\<close> is the platform's URL parser, a parameter of the model: it gives
  the parsed URL, of which the formatter reads two members, or throws.
\<close>

datatype js_error = TypeError | RangeError

record url =
  hostname :: string
  pathname :: string

text \<open>\<^verbatim>\<open>try { body } catch { handler }\<close>: whatever the body throws is caught.\<close>

definition try_catch :: "js_error + 'a \<Rightarrow> js_error + 'a \<Rightarrow> js_error + 'a" where
  "try_catch body handler = (case body of Inl e \<Rightarrow> handler | Inr v \<Rightarrow> Inr v)"

text \<open>
  \<^verbatim>\<open>
  function getSourceLabel(source) {
    try {
      const parsed = new URL(source);
      return `${parsed.hostname}${parsed.pathname}`;
    } catch {
      return source;
    }
  }
  \<close>
\<close>

definition getSourceLabel :: "(string \<Rightarrow> js_error + url) \<Rightarrow> string \<Rightarrow> js_error + string" where
  "getSourceLabel URL_new source =
     try_catch
       (case URL_new source of
          Inl e \<Rightarrow> Inl e
        | Inr parsed \<Rightarrow> Inr (hostname parsed @ pathname parsed))
       (Inr source)"

text \<open>A parser for examples: it knows one URL and rejects everything else.\<close>

definition example_URL :: "string \<Rightarrow> js_error + url" where
  "example_URL s =
     (if s = ''https://x.com/eshita'' then Inr \<lparr>hostname = ''x.com'', pathname = ''/eshita''\<rparr>
      else Inl TypeError)"

section \<open>Selection state holder\<close>

text \<open>
  \<^verbatim>\<open>statesData\<close> is the dataset's states map, an object parsed from JSON. It is given
  by its own properties, abbreviation and entry, in enumeration order; the keys of an
  object are distinct. \<^verbatim>\<open>ALL_STATES\<close> (abbreviation to display name) comes from
  \<^verbatim>\<open>./data/stateMappings\<close>, which is not among the sources, and is a parameter.
\<close>

type_synonym states_data = "(string \<times> state_record) list"

definition record_table :: "states_data \<Rightarrow> (string \<rightharpoonup> jsval)" where
  "record_table statesData = (\<lambda>k. map_option Rec (map_of statesData k))"

text \<open>\<^verbatim>\<open>.filter(Boolean)\<close> on strings that may be absent: the non-empty strings stay.\<close>

fun filter_Boolean :: "string option list \<Rightarrow> string list" where
  "filter_Boolean [] = []"
| "filter_Boolean (None # xs) = filter_Boolean xs"
| "filter_Boolean (Some s # xs) = (if s = [] then filter_Boolean xs else s # filter_Boolean xs)"

text \<open>
  \<^verbatim>\<open>
  Object.values(statesData).map((item) => item.lastUpdated).filter(Boolean).sort()
  \<close>
  \<^verbatim>\<open>sort()\<close> without a comparator orders strings by their code units, which is the
  lexicographic order of \<^typ>\<open>string\<close>.
\<close>

definition allLastUpdated :: "states_data \<Rightarrow> string list" where
  "allLastUpdated statesData = sort (filter_Boolean (map lastUpdated (map snd statesData)))"

text \<open>\<^verbatim>\<open>allLastUpdated[allLastUpdated.length - 1] || "2026-02-11"\<close>\<close>

definition latestDataDate :: "states_data \<Rightarrow> string" where
  "latestDataDate statesData =
     (let xs = allLastUpdated statesData
      in if xs = [] then ''2026-02-11''
         else if last xs = [] then ''2026-02-11'' else last xs)"

text \<open>The string a value becomes inside a template literal.\<close>

fun ToString :: "jsval \<Rightarrow> string" where
  "ToString Undefined = ''undefined''"
| "ToString (Str s) = s"
| "ToString (Rec r) = ''[object Object]''"
| "ToString (Inherited k) =
     (if k = ''__proto__'' then ''[object Object]''
      else ''function '' @ (if k = ''constructor'' then ''Object'' else k) @ ''() { [native code] }'')"

text \<open>
  \<^verbatim>\<open>
  const selectedState = useMemo(() => {
    const fromData = statesData[selectedAbbr];
    if (fromData) return fromData;
    const name = ALL_STATES[selectedAbbr] || "Unknown";
    return {
      name,
      status: "federal_default",
      summary: `${name} does not currently have ... in this dataset. ` + "As a baseline, ...",
      keyLaws: ["No dedicated state-level stablecoin framework identified in this dataset."],
      recentDevelopments: "No major state-specific stablecoin development is ...",
      sources: [],
      lastUpdated: latestDataDate
    };
  }, [latestDataDate, selectedAbbr, statesData]);
  \<close>
\<close>

definition selectedState :: "states_data \<Rightarrow> (string \<rightharpoonup> string) \<Rightarrow> string \<Rightarrow> jsval" where
  "selectedState statesData ALL_STATES selectedAbbr =
     (let fromData = get_prop (record_table statesData) selectedAbbr
      in if truthy fromData then fromData
         else
           (let nm = ToString (js_or (get_prop (string_table ALL_STATES) selectedAbbr)
                                     (Str ''Unknown''))
            in Rec \<lparr>name = nm,
                 status = Some ''federal_default'',
                 summary =
                   nm @ '' does not currently have a clearly identified state-specific stablecoin framework in this dataset. ''
                     @ ''As a baseline, activity may still be governed by federal stablecoin rules plus general money transmission, banking, and consumer protection law.'',
                 keyLaws =
                   [''No dedicated state-level stablecoin framework identified in this dataset.''],
                 recentDevelopments =
                   ''No major state-specific stablecoin development is currently listed in this starter dataset.'',
                 sources = [],
                 lastUpdated = Some (latestDataDate statesData)\<rparr>))"

text \<open>The dates the dataset holds: the non-empty \<open>lastUpdated\<close> members of its entries.\<close>

definition present_dates :: "states_data \<Rightarrow> string set" where
  "present_dates statesData =
     {s. s \<noteq> [] \<and> Some s \<in> lastUpdated ` snd ` set statesData}"


section \<open>Date formatter\<close>
















section \<open>Properties of the status normalizer\<close>

lemma overrides_dom: "dom STATUS_OVERRIDES_BY_STATE = {''FL'', ''HI'', ''AZ''}"
  by (auto simp: STATUS_OVERRIDES_BY_STATE_def split: if_splits)

lemma overrides_value:
  "STATUS_OVERRIDES_BY_STATE abbr = Some ov \<Longrightarrow> ov = Str ''pending'' \<and> abbr \<noteq> []"
  by (auto simp: STATUS_OVERRIDES_BY_STATE_def split: if_splits)

text \<open>
  C1. For every abbreviation with an entry in the override table (the entries are FL, HI
  and AZ) and every raw status, present or absent, \<open>normalizeStatus\<close> returns the status
  the table holds for that abbreviation, which is \<open>pending\<close>; the raw status is ignored.
\<close>

theorem normalizeStatus_override:
  "dom STATUS_OVERRIDES_BY_STATE = {''FL'', ''HI'', ''AZ''} \<and>
   (\<forall>abbr ov raw. STATUS_OVERRIDES_BY_STATE abbr = Some ov \<longrightarrow>
      normalizeStatus raw (Some abbr) = ov \<and> ov = Str ''pending'')"
proof (intro conjI allI impI)
  show "dom STATUS_OVERRIDES_BY_STATE = {''FL'', ''HI'', ''AZ''}"
    by (rule overrides_dom)
next
  fix abbr ov raw
  assume own: "STATUS_OVERRIDES_BY_STATE abbr = Some ov"
  from overrides_value [OF own] have ov: "ov = Str ''pending''" and ne: "abbr \<noteq> []"
    by simp_all
  from own ne ov show "normalizeStatus raw (Some abbr) = ov"
    by (simp add: normalizeStatus_def get_prop_def)
  from ov show "ov = Str ''pending''" .
qed

theorem normalizeStatus_override_witness:
  "STATUS_OVERRIDES_BY_STATE ''FL'' = Some (Str ''pending'') \<and>
   normalizeStatus (Some ''clear_friendly'') (Some ''FL'') = Str ''pending'' \<and>
   normalizeStatus None (Some ''HI'') = Str ''pending'' \<and>
   normalizeStatus (Some ''no such status'') (Some ''AZ'') = Str ''pending''"
proof -
  have fl: "STATUS_OVERRIDES_BY_STATE ''FL'' = Some (Str ''pending'')"
    and hi: "STATUS_OVERRIDES_BY_STATE ''HI'' = Some (Str ''pending'')"
    and az: "STATUS_OVERRIDES_BY_STATE ''AZ'' = Some (Str ''pending'')"
    by (simp_all add: STATUS_OVERRIDES_BY_STATE_def)
  note step = normalizeStatus_override [THEN conjunct2, rule_format, THEN conjunct1]
  show ?thesis
    using fl step [OF fl, of "Some ''clear_friendly''"] step [OF hi, of None]
      step [OF az, of "Some ''no such status''"]
    by simp
qed

lemma hasOwn_STATUS_META_iff:
  "hasOwn_STATUS_META k \<longleftrightarrow>
     k \<in> {''clear_friendly'', ''clear_restrictive'', ''pending'', ''federal_default''}"
  by (auto simp: hasOwn_STATUS_META_def STATUS_META_def)

lemma no_override:
  "a \<notin> {''FL'', ''HI'', ''AZ''} \<Longrightarrow> a \<notin> set Object_prototype_names \<Longrightarrow>
   get_prop STATUS_OVERRIDES_BY_STATE a = Undefined"
  by (simp add: get_prop_def STATUS_OVERRIDES_BY_STATE_def Object_prototype_def)

lemma normalizeStatus_no_override:
  "abbr = None \<or> (\<exists>a. abbr = Some a \<and> a \<notin> {''FL'', ''HI'', ''AZ''} \<and>
      a \<notin> set Object_prototype_names) \<Longrightarrow>
   normalizeStatus input abbr =
     (case input of
        None \<Rightarrow> Str ''federal_default''
      | Some s \<Rightarrow>
          if s = [] then Str ''federal_default''
          else if hasOwn_STATUS_META s then Str s
          else js_or (get_prop legacyMap s) (Str ''federal_default''))"
  by (auto simp: normalizeStatus_def no_override)

text \<open>
  What the normalizer does for an abbreviation that is absent, or that is neither in the
  override table nor a name of \<open>Object_prototype_names\<close>: an absent or empty raw status
  gives \<open>federal_default\<close>, the four legacy aliases are mapped, and a raw status that is
  neither canonical nor a legacy alias nor a name of \<open>Object_prototype_names\<close> gives
  \<open>federal_default\<close>.
\<close>

lemma normalizeStatus_plain_keys:
  assumes "abbr = None \<or> (\<exists>a. abbr = Some a \<and> a \<notin> {''FL'', ''HI'', ''AZ''} \<and>
      a \<notin> set Object_prototype_names)"
  shows "normalizeStatus None abbr = Str ''federal_default''"
    and "normalizeStatus (Some []) abbr = Str ''federal_default''"
    and "normalizeStatus (Some ''friendly'') abbr = Str ''clear_friendly''"
    and "normalizeStatus (Some ''restrictive'') abbr = Str ''clear_restrictive''"
    and "normalizeStatus (Some ''none'') abbr = Str ''federal_default''"
    and "normalizeStatus (Some ''unclear'') abbr = Str ''pending''"
    and "\<not> hasOwn_STATUS_META s \<Longrightarrow> legacyMap s = None \<Longrightarrow>
         s \<notin> set Object_prototype_names \<Longrightarrow>
         normalizeStatus (Some s) abbr = Str ''federal_default''"
  by (simp_all add: normalizeStatus_no_override [OF assms] hasOwn_STATUS_META_iff
      get_prop_def legacyMap_def js_or_def Object_prototype_def)

text \<open>
  C2, at an input where the code departs from it. The raw status \<open>constructor\<close> is not
  canonical and not a legacy alias, and NY has no override; \<^verbatim>\<open>legacyMap[input]\<close> finds
  the member every object literal inherits, which is truthy, and the normalizer returns
  it instead of \<open>federal_default\<close>. The same lookup on the override table answers for an
  abbreviation named \<open>constructor\<close>, whatever the raw status.
\<close>

theorem normalizeStatus_inherited_member:
  "STATUS_OVERRIDES_BY_STATE ''NY'' = None \<and> legacyMap ''constructor'' = None \<and>
   hasOwn_STATUS_META ''constructor'' = False \<and>
   normalizeStatus (Some ''constructor'') (Some ''NY'') = Inherited ''constructor'' \<and>
   STATUS_OVERRIDES_BY_STATE ''constructor'' = None \<and>
   normalizeStatus None (Some ''constructor'') = Inherited ''constructor''"
  by (simp add: normalizeStatus_def get_prop_def js_or_def Object_prototype_def
      Object_prototype_names_def STATUS_OVERRIDES_BY_STATE_def legacyMap_def
      hasOwn_STATUS_META_iff)

text \<open>
  C3, as stated, fails where an override applies: the canonical raw status
  \<open>clear_friendly\<close> of FL is replaced by \<open>pending\<close>.
\<close>

theorem normalizeStatus_canonical_counterexample:
  "hasOwn_STATUS_META ''clear_friendly'' \<and>
   normalizeStatus (Some ''clear_friendly'') (Some ''FL'') = Str ''pending'' \<and>
   normalizeStatus (Some ''clear_friendly'') (Some ''FL'') \<noteq> Str ''clear_friendly''"
  by (simp add: normalizeStatus_def get_prop_def STATUS_OVERRIDES_BY_STATE_def
      hasOwn_STATUS_META_iff)

text \<open>
  C3, amended. The canonical statuses are \<open>clear_friendly\<close>, \<open>clear_restrictive\<close>,
  \<open>pending\<close> and \<open>federal_default\<close>. For every canonical raw status, \<open>normalizeStatus\<close>
  returns it unchanged when the abbreviation is absent, and when the abbreviation is
  not FL, HI or AZ and is not a name of \<open>Object_prototype_names\<close>.
\<close>

theorem normalizeStatus_canonical_identity:
  "(hasOwn_STATUS_META raw \<longleftrightarrow>
      raw \<in> {''clear_friendly'', ''clear_restrictive'', ''pending'', ''federal_default''}) \<and>
   (hasOwn_STATUS_META raw \<longrightarrow> normalizeStatus (Some raw) None = Str raw) \<and>
   (hasOwn_STATUS_META raw \<and> a \<notin> {''FL'', ''HI'', ''AZ''} \<and>
      a \<notin> set Object_prototype_names \<longrightarrow> normalizeStatus (Some raw) (Some a) = Str raw)"
proof (intro conjI impI)
  show "hasOwn_STATUS_META raw \<longleftrightarrow>
      raw \<in> {''clear_friendly'', ''clear_restrictive'', ''pending'', ''federal_default''}"
    by (rule hasOwn_STATUS_META_iff)
next
  assume can: "hasOwn_STATUS_META raw"
  then have "raw \<noteq> []"
    by (auto simp: hasOwn_STATUS_META_iff)
  with can show "normalizeStatus (Some raw) None = Str raw"
    by (simp add: normalizeStatus_no_override)
next
  assume h: "hasOwn_STATUS_META raw \<and> a \<notin> {''FL'', ''HI'', ''AZ''} \<and>
      a \<notin> set Object_prototype_names"
  then have "raw \<noteq> []"
    by (auto simp: hasOwn_STATUS_META_iff)
  with h show "normalizeStatus (Some raw) (Some a) = Str raw"
    by (simp add: normalizeStatus_no_override)
qed

theorem normalizeStatus_canonical_identity_witness:
  "hasOwn_STATUS_META ''clear_restrictive'' \<and>
   ''NY'' \<notin> {''FL'', ''HI'', ''AZ''} \<and> ''NY'' \<notin> set Object_prototype_names \<and>
   normalizeStatus (Some ''clear_restrictive'') None = Str ''clear_restrictive'' \<and>
   normalizeStatus (Some ''clear_restrictive'') (Some ''NY'') = Str ''clear_restrictive''"
proof -
  have can: "hasOwn_STATUS_META ''clear_restrictive''"
    by (simp add: hasOwn_STATUS_META_iff)
  have ny: "''NY'' \<notin> {''FL'', ''HI'', ''AZ''}" "''NY'' \<notin> set Object_prototype_names"
    by (simp_all add: Object_prototype_names_def)
  note inst = normalizeStatus_canonical_identity [of "''clear_restrictive''" "''NY''"]
  have absent: "normalizeStatus (Some ''clear_restrictive'') None = Str ''clear_restrictive''"
    by (rule inst [THEN conjunct2, THEN conjunct1, THEN mp, OF can])
  have plain: "normalizeStatus (Some ''clear_restrictive'') (Some ''NY'') = Str ''clear_restrictive''"
    by (rule inst [THEN conjunct2, THEN conjunct2, THEN mp]) (intro conjI can ny)
  from can ny absent plain show ?thesis
    by (intro conjI)
qed

section \<open>Properties of the colour deriver\<close>

lemma divmod_int:
  fixes q r d :: int
  assumes "0 \<le> r" "r < d"
  shows "(q * d + r) div d = q" and "(q * d + r) mod d = r"
  using assms by (simp_all add: div_pos_pos_trivial mod_pos_pos_trivial)

lemma divmod_nat:
  fixes q r d :: nat
  assumes "r < d"
  shows "(q * d + r) div d = q" and "(q * d + r) mod d = r"
  using assms by simp_all

lemma fixed16_byte:
  assumes b: "b < 256"
  shows "fixed16 (Suc (Suc k)) (m * 256 + b) = fixed16 k m @ hex_byte (int b)"
proof -
  define hi lo where "hi = b div 16" and "lo = b mod 16"
  have b_eq: "b = hi * 16 + lo" and lo: "lo < 16"
    by (simp_all add: hi_def lo_def)
  from b have hi: "hi < 16"
    by (simp add: hi_def less_mult_imp_div_less)
  have n_eq: "m * 256 + b = (m * 16 + hi) * 16 + lo"
    by (simp add: b_eq)
  have 1: "(m * 256 + b) mod 16 = lo" and 2: "(m * 256 + b) div 16 = m * 16 + hi"
    unfolding n_eq by (rule divmod_nat [OF lo])+
  have 3: "(m * 16 + hi) mod 16 = hi" and 4: "(m * 16 + hi) div 16 = m"
    by (rule divmod_nat [OF hi])+
  from hi show ?thesis
    by (simp add: hex_byte_def 1 2 4 hi_def lo_def)
qed

lemma power_numeral_16: "(2::int) ^ 16 = 65536"
  by simp

lemma power_numeral_8: "(2::int) ^ 8 = 256"
  by simp

lemma and_255: "(x::int) AND 255 = x mod 256"
proof -
  have "(255::int) = mask 8"
    by (simp add: mask_eq_exp_minus_1)
  then have "x AND 255 = take_bit 8 x"
    by (simp only: take_bit_eq_mask)
  then show ?thesis
    by (simp add: take_bit_eq_mod)
qed

lemma split_rgb:
  fixes R G B :: int
  assumes G: "0 \<le> G" "G < 256" and B: "0 \<le> B" "B < 256"
  shows "drop_bit 16 (R * 65536 + G * 256 + B) = R"
    and "drop_bit 8 (R * 65536 + G * 256 + B) AND 255 = G"
    and "(R * 65536 + G * 256 + B) AND 255 = B"
proof -
  let ?num = "R * 65536 + G * 256 + B"
  from G B have low: "0 \<le> G * 256 + B" "G * 256 + B < 65536"
    by simp_all
  have e16: "?num = R * 65536 + (G * 256 + B)" and e8: "?num = (R * 256 + G) * 256 + B"
    by simp_all
  have d16: "?num div 65536 = R"
    by (subst e16) (rule divmod_int(1) [OF low])
  have d8: "?num div 256 = R * 256 + G"
    by (subst e8) (rule divmod_int(1) [OF B])
  have m8: "?num mod 256 = B"
    by (subst e8) (rule divmod_int(2) [OF B])
  have g: "(R * 256 + G) mod 256 = G"
    by (rule divmod_int(2) [OF G])
  show "drop_bit 16 ?num = R"
    by (simp only: drop_bit_eq_div d16 power_numeral_16)
  show "drop_bit 8 ?num AND 255 = G"
    by (simp only: drop_bit_eq_div and_255 d8 g power_numeral_8)
  show "?num AND 255 = B"
    by (simp only: and_255 m8)
qed
lemma hex_char_0: "hex_char 0 = CHR ''0''"
  by (simp add: hex_char_def)

lemma fixed16_zero: "fixed16 k 0 = replicate k CHR ''0''"
  by (induction k) (simp_all add: hex_char_0 replicate_append_same)

lemma length_digits16: "0 < k \<Longrightarrow> n < 16 ^ k \<Longrightarrow> length (digits16 n) \<le> k"
proof (induction k arbitrary: n)
  case 0
  then show ?case by simp
next
  case (Suc k)
  show ?case
  proof (cases "n < 16")
    case True
    then show ?thesis by (simp add: digits16.simps)
  next
    case False
    with Suc.prems have k: "0 < k"
      by (cases k) simp_all
    from Suc.prems have "n div 16 < 16 ^ k"
      by (simp add: less_mult_imp_div_less mult.commute)
    from Suc.IH [OF k this] False show ?thesis
      by (simp add: digits16.simps [of n])
  qed
qed

lemma padStart_digits16: "0 < k \<Longrightarrow> n < 16 ^ k \<Longrightarrow> padStart k CHR ''0'' (digits16 n) = fixed16 k n"
proof (induction k arbitrary: n)
  case 0
  then show ?case by simp
next
  case (Suc k)
  show ?case
  proof (cases "n < 16")
    case True
    then show ?thesis
      by (simp add: digits16.simps padStart_def fixed16_zero)
  next
    case False
    with Suc.prems have k: "0 < k"
      by (cases k) simp_all
    from Suc.prems have small: "n div 16 < 16 ^ k"
      by (simp add: less_mult_imp_div_less mult.commute)
    have len: "length (digits16 (n div 16)) \<le> k"
      by (rule length_digits16 [OF k small])
    from Suc.IH [OF k small] False len show ?thesis
      by (simp add: digits16.simps [of n] padStart_def Suc_diff_le)
  qed
qed

lemma fixed16_rgb:
  assumes "r < 256" "g < 256" "b < 256"
  shows "fixed16 6 (r * 65536 + g * 256 + b) = hex_byte (int r) @ hex_byte (int g) @ hex_byte (int b)"
proof -
  have six: "(6::nat) = Suc (Suc (Suc (Suc (Suc (Suc 0)))))"
    by simp
  have "r * 65536 + g * 256 + b = (r * 256 + g) * 256 + b"
    by simp
  then have "fixed16 6 (r * 65536 + g * 256 + b) = fixed16 (Suc (Suc (Suc (Suc (Suc (Suc 0)))))) ((r * 256 + g) * 256 + b)"
    by (simp only: six)
  also have "\<dots> = fixed16 (Suc (Suc (Suc (Suc 0)))) (r * 256 + g) @ hex_byte (int b)"
    by (rule fixed16_byte [OF assms(3)])
  also have "fixed16 (Suc (Suc (Suc (Suc 0)))) (r * 256 + g) = fixed16 (Suc (Suc 0)) r @ hex_byte (int g)"
    by (rule fixed16_byte [OF assms(2)])
  also have "fixed16 (Suc (Suc 0)) r = fixed16 0 0 @ hex_byte (int r)"
    using fixed16_byte [OF assms(1), of 0 0] by simp
  finally show ?thesis by simp
qed

lemma or_low_bits:
  fixes a b :: int
  assumes "0 \<le> b" "b < 2 ^ n"
  shows "push_bit n a OR b = a * 2 ^ n + b"
proof -
  from assms have tb: "take_bit n b = b"
    by (simp add: take_bit_int_eq_self)
  have "push_bit n a AND take_bit n b = 0"
    by (rule bit_eqI) (auto simp: bit_simps)
  then have "push_bit n a + take_bit n b = push_bit n a OR take_bit n b"
    by (rule disjunctive_add_eq_or)
  with tb show ?thesis
    by (simp add: push_bit_eq_mult)
qed

lemma compose_rgb:
  fixes r g b :: int
  assumes "0 \<le> g" "g < 256" "0 \<le> b" "b < 256"
  shows "(push_bit 16 r OR push_bit 8 g) OR b = r * 65536 + g * 256 + b"
proof -
  have "push_bit 16 r OR push_bit 8 g = push_bit 8 (push_bit 8 r OR g)"
    by (simp add: push_bit_or push_bit_push_bit)
  also have "push_bit 8 r OR g = r * 256 + g"
    using or_low_bits [of g 8 r] assms by simp
  finally have "(push_bit 16 r OR push_bit 8 g) OR b = push_bit 8 (r * 256 + g) OR b"
    by simp
  also have "\<dots> = (r * 256 + g) * 256 + b"
    using or_low_bits [of b 8 "r * 256 + g"] assms by simp
  finally show ?thesis by simp
qed

lemma digit16_less: "digit16 c < 16"
  by (auto simp: digit16_def hex_val_def Let_def)

lemma hex_digit_plain:
  assumes "is_hex_digit c"
  shows "\<not> is_white_space c" and "c \<noteq> CHR ''+''" and "c \<noteq> CHR ''-''"
    and "c \<noteq> CHR ''x''" and "c \<noteq> CHR ''X''" and "c \<noteq> CHR ''#''"
  using assms
  by (auto simp: is_hex_digit_def hex_val_def is_white_space_def Let_def split: if_splits)

lemma six_chars: "length s = 6 \<Longrightarrow> s = [s ! 0, s ! 1, s ! 2, s ! 3, s ! 4, s ! 5]"
  by (cases s; simp; cases "tl s"; simp; cases "tl (tl s)"; simp; cases "tl (tl (tl s))"; simp;
      cases "tl (tl (tl (tl s)))"; simp; cases "tl (tl (tl (tl (tl s))))"; simp)


lemma clamp_range: "0 \<le> clamp v" "clamp v \<le> 255" "clamp v < 256"
  by (simp_all add: clamp_def)

lemma shiftHexColor_parsed:
  assumes len: "length (remove1 CHR ''#'' hex) = 6"
    and num: "parseInt16 (remove1 CHR ''#'' hex) = Some num"
  shows "shiftHexColor hex amount =
     CHR ''#'' # hex_byte (clamp (drop_bit 16 num + amount))
       @ hex_byte (clamp ((drop_bit 8 num AND 255) + amount))
       @ hex_byte (clamp ((num AND 255) + amount))"
proof -
  define r g b where "r = clamp (drop_bit 16 num + amount)"
    and "g = clamp ((drop_bit 8 num AND 255) + amount)"
    and "b = clamp ((num AND 255) + amount)"
  have r: "0 \<le> r" "r < 256" and g: "0 \<le> g" "g < 256" and b: "0 \<le> b" "b < 256"
    by (simp_all add: r_def g_def b_def clamp_range)
  let ?n = "nat r * 65536 + nat g * 256 + nat b"
  have val: "(push_bit 16 r OR push_bit 8 g) OR b = int ?n"
    using r g b by (simp add: compose_rgb)
  have ts: "toString16 (int ?n) = digits16 ?n"
    by (simp only: toString16_def nat_int) simp
  from r g b have small: "?n < 16 ^ 6"
    by simp
  have "padStart 6 CHR ''0'' (toString16 ((push_bit 16 r OR push_bit 8 g) OR b)) =
      padStart 6 CHR ''0'' (digits16 ?n)"
    by (simp only: val ts)
  also have "\<dots> = fixed16 6 ?n"
    by (rule padStart_digits16 [OF _ small]) simp
  also have "\<dots> = hex_byte (int (nat r)) @ hex_byte (int (nat g)) @ hex_byte (int (nat b))"
    using r g b by (intro fixed16_rgb) simp_all
  also have "\<dots> = hex_byte r @ hex_byte g @ hex_byte b"
    using r g b by simp
  finally have out: "padStart 6 CHR ''0'' (toString16 ((push_bit 16 r OR push_bit 8 g) OR b)) =
      hex_byte r @ hex_byte g @ hex_byte b" .
  show ?thesis
    using len num out by (simp add: shiftHexColor_def Let_def r_def g_def b_def)
qed

lemma shiftHexColor_rejected:
  "length (remove1 CHR ''#'' hex) \<noteq> 6 \<or> parseInt16 (remove1 CHR ''#'' hex) = None \<Longrightarrow>
   shiftHexColor hex amount = hex"
  by (auto simp: shiftHexColor_def Let_def)

lemma parseInt16_digits:
  assumes len: "length s = 6" and dig: "list_all is_hex_digit s"
  shows "parseInt16 s = Some (channel s 0 * 65536 + channel s 2 * 256 + channel s 4)"
proof -
  obtain d1 d2 d3 d4 d5 d6 where s: "s = [d1, d2, d3, d4, d5, d6]"
    using six_chars [OF len] by blast
  from dig have d: "is_hex_digit d1" "is_hex_digit d2" "is_hex_digit d3"
      "is_hex_digit d4" "is_hex_digit d5" "is_hex_digit d6"
    by (simp_all add: s)
  have take: "takeWhile is_hex_digit s = s"
    using dig by (simp add: takeWhile_eq_all_conv list_all_iff)
  have val: "int (radix16 s) = channel s 0 * 65536 + channel s 2 * 256 + channel s 4"
    by (simp add: s radix16_def channel_def)
  have "parseInt16 s = Some (int (radix16 s))"
    using hex_digit_plain [OF d(1)] hex_digit_plain [OF d(2)] take
    by (simp add: parseInt16_def s)
  with val show ?thesis by simp
qed

lemma channel_range:
  "0 \<le> channel s i" "channel s i < 256"
  using digit16_less [of "s ! i"] digit16_less [of "s ! (i + 1)"]
  by (simp_all add: channel_def)

lemma well_formed_body:
  assumes "well_formed_hex hex"
  shows "remove1 CHR ''#'' hex = hex_body hex" and "length (hex_body hex) = 6"
    and "list_all is_hex_digit (hex_body hex)"
proof -
  from assms obtain c rest where hex: "hex = c # rest"
    by (cases hex) (simp_all add: well_formed_hex_def)
  show "length (hex_body hex) = 6" and "list_all is_hex_digit (hex_body hex)"
    using assms by (simp_all add: hex well_formed_hex_def hex_body_def split: if_splits)
  show "remove1 CHR ''#'' hex = hex_body hex"
  proof (cases "c = CHR ''#''")
    case True
    then show ?thesis by (simp add: hex hex_body_def)
  next
    case False
    with assms have "list_all is_hex_digit hex"
      by (simp add: hex well_formed_hex_def)
    then have "CHR ''#'' \<notin> set hex"
      using hex_digit_plain(6) by (auto simp: list_all_iff)
    then have "remove1 CHR ''#'' hex = hex"
      by (rule remove1_idem)
    with False show ?thesis by (simp add: hex hex_body_def)
  qed
qed

lemma shiftHexColor_well_formed:
  assumes wf: "well_formed_hex hex"
  shows "shiftHexColor hex amount = recompose hex amount"
proof -
  let ?body = "hex_body hex"
  let ?R = "channel ?body 0" and ?G = "channel ?body 2" and ?B = "channel ?body 4"
  note body = well_formed_body [OF wf]
  have parsed: "parseInt16 (remove1 CHR ''#'' hex) = Some (?R * 65536 + ?G * 256 + ?B)"
    unfolding body(1) by (rule parseInt16_digits [OF body(2) body(3)])
  have len: "length (remove1 CHR ''#'' hex) = 6"
    unfolding body(1) by (rule body(2))
  note split = split_rgb [OF channel_range [of ?body 2] channel_range [of ?body 4], of ?R]
  show ?thesis
    unfolding shiftHexColor_parsed [OF len parsed] split
    by (simp add: recompose_def Let_def)
qed

lemmas hex_eval =
  is_hex_digit_def hex_val_def is_white_space_def digit16_def radix16_def hex_char_def
  hex_byte_def clamp_def drop_bit_eq_div and_255

lemma recompose_black: "recompose ''#000000'' 26 = ''#1a1a1a''"
  by (simp add: recompose_def hex_body_def channel_def hex_eval)

lemma recompose_white: "recompose ''#ffffff'' 26 = ''#ffffff''"
  by (simp add: recompose_def hex_body_def channel_def hex_eval)

text \<open>
  C5, at inputs where the code departs from it. None of the three strings is six
  radix-16 digits with an optional leading \<^verbatim>\<open>#\<close>, yet each passes both checks and
  comes back as a different string: \<^verbatim>\<open>parseInt\<close> reads the leading digits \<open>12\<close> of
  \<open>12zzzz\<close> and drops the rest, \<^verbatim>\<open>replace\<close> removes a \<^verbatim>\<open>#\<close> from the middle of
  \<open>12#3456\<close>, and \<^verbatim>\<open>parseInt\<close> skips the \<^verbatim>\<open>0x\<close> of \<open>0x1234\<close>.
\<close>

theorem shiftHexColor_malformed_accepted:
  "well_formed_hex ''12zzzz'' = False \<and> shiftHexColor ''12zzzz'' 0 = ''#000012'' \<and>
   well_formed_hex ''12#3456'' = False \<and> shiftHexColor ''12#3456'' 0 = ''#123456'' \<and>
   well_formed_hex ''0x1234'' = False \<and> shiftHexColor ''0x1234'' 0 = ''#001234''"
proof -
  have p1: "parseInt16 (remove1 CHR ''#'' ''12zzzz'') = Some 18"
    and p2: "parseInt16 (remove1 CHR ''#'' ''12#3456'') = Some 1193046"
    and p3: "parseInt16 (remove1 CHR ''#'' ''0x1234'') = Some 4660"
    by (simp_all add: parseInt16_def hex_eval)
  have "shiftHexColor ''12zzzz'' 0 = ''#000012''"
    by (subst shiftHexColor_parsed [OF _ p1]) (simp_all add: hex_eval)
  moreover have "shiftHexColor ''12#3456'' 0 = ''#123456''"
    by (subst shiftHexColor_parsed [OF _ p2]) (simp_all add: hex_eval)
  moreover have "shiftHexColor ''0x1234'' 0 = ''#001234''"
    by (subst shiftHexColor_parsed [OF _ p3]) (simp_all add: hex_eval)
  moreover have "well_formed_hex ''12zzzz'' = False" "well_formed_hex ''12#3456'' = False"
      "well_formed_hex ''0x1234'' = False"
    by (simp_all add: well_formed_hex_def hex_eval)
  ultimately show ?thesis by simp
qed

text \<open>
  C6. For every well-formed input (six radix-16 digits, with or without a leading
  \<^verbatim>\<open>#\<close>) and every integer amount, \<open>shiftHexColor\<close> returns \<open>recompose\<close>: \<^verbatim>\<open>#\<close>
  followed by the red, green and blue bytes of the input, each with the amount added
  and clamped to the range from 0 to 255, each written as two digits. In particular
  \<^verbatim>\<open>#000000\<close> shifted by 26 is \<^verbatim>\<open>#1a1a1a\<close> and \<^verbatim>\<open>#ffffff\<close> shifted by 26 stays
  \<^verbatim>\<open>#ffffff\<close>.
\<close>

theorem shiftHexColor_recomposes:
  "(well_formed_hex hex \<longrightarrow> shiftHexColor hex amount = recompose hex amount) \<and>
   clamp v = (if v < 0 then 0 else if 255 < v then 255 else v) \<and>
   shiftHexColor ''#000000'' 26 = ''#1a1a1a'' \<and>
   shiftHexColor ''#ffffff'' 26 = ''#ffffff''"
proof (intro conjI impI)
  assume "well_formed_hex hex"
  then show "shiftHexColor hex amount = recompose hex amount"
    by (rule shiftHexColor_well_formed)
next
  show "clamp v = (if v < 0 then 0 else if 255 < v then 255 else v)"
    by (simp add: clamp_def)
next
  have "well_formed_hex ''#000000''"
    by (simp add: well_formed_hex_def hex_eval)
  then show "shiftHexColor ''#000000'' 26 = ''#1a1a1a''"
    by (simp only: shiftHexColor_well_formed recompose_black)
next
  have "well_formed_hex ''#ffffff''"
    by (simp add: well_formed_hex_def hex_eval)
  then show "shiftHexColor ''#ffffff'' 26 = ''#ffffff''"
    by (simp only: shiftHexColor_well_formed recompose_white)
qed

theorem shiftHexColor_recomposes_witness:
  "well_formed_hex ''#1e3a8a'' \<and> shiftHexColor ''#1e3a8a'' 14 = ''#2c4898'' \<and>
   well_formed_hex ''A16207'' \<and> shiftHexColor ''A16207'' (- 40) = ''#793a00''"
proof -
  have wf1: "well_formed_hex ''#1e3a8a''" and wf2: "well_formed_hex ''A16207''"
    by (simp_all add: well_formed_hex_def hex_eval)
  have r1: "recompose ''#1e3a8a'' 14 = ''#2c4898''"
    and r2: "recompose ''A16207'' (- 40) = ''#793a00''"
    by (simp_all add: recompose_def hex_body_def channel_def hex_eval)
  have s1: "shiftHexColor ''#1e3a8a'' 14 = recompose ''#1e3a8a'' 14"
    by (rule shiftHexColor_recomposes [of "''#1e3a8a''" 14 0, THEN conjunct1, THEN mp, OF wf1])
  have s2: "shiftHexColor ''A16207'' (- 40) = recompose ''A16207'' (- 40)"
    by (rule shiftHexColor_recomposes [of "''A16207''" "- 40" 0, THEN conjunct1, THEN mp, OF wf2])
  from wf1 wf2 s1 s2 r1 r2 show ?thesis
    by simp
qed


section \<open>Properties of the region resolver\<close>



lemma digits10_nonempty: "digits10 n \<noteq> []"
  by (simp add: digits10.simps [of n])






lemma get_prop_string_table:
  "t k = Some v \<Longrightarrow> get_prop (string_table t) k = Str v"
  "t k = None \<Longrightarrow> k \<notin> set Object_prototype_names \<Longrightarrow> get_prop (string_table t) k = Undefined"
  by (simp_all add: get_prop_def string_table_def Object_prototype_def)



section \<open>Properties of the source label formatter\<close>

text \<open>
  C9. For every input string and every URL parser: when the input parses,
  \<open>getSourceLabel\<close> returns the host name followed by the path name of the parsed URL;
  when parsing throws, it returns the input unchanged; it never throws itself.
\<close>

theorem getSourceLabel_total:
  "(URL_new source = Inr parsed \<longrightarrow>
      getSourceLabel URL_new source = Inr (hostname parsed @ pathname parsed)) \<and>
   (URL_new source = Inl e \<longrightarrow> getSourceLabel URL_new source = Inr source) \<and>
   (\<exists>label. getSourceLabel URL_new source = Inr label)"
  by (cases "URL_new source") (simp_all add: getSourceLabel_def try_catch_def)

theorem getSourceLabel_total_witness:
  "example_URL ''https://x.com/eshita'' = Inr \<lparr>hostname = ''x.com'', pathname = ''/eshita''\<rparr> \<and>
   getSourceLabel example_URL ''https://x.com/eshita'' = Inr ''x.com/eshita'' \<and>
   example_URL ''see the statute'' = Inl TypeError \<and>
   getSourceLabel example_URL ''see the statute'' = Inr ''see the statute''"
proof -
  have ok: "example_URL ''https://x.com/eshita'' =
      Inr \<lparr>hostname = ''x.com'', pathname = ''/eshita''\<rparr>"
    and bad: "example_URL ''see the statute'' = Inl TypeError"
    by (simp_all add: example_URL_def)
  have l1: "getSourceLabel example_URL ''https://x.com/eshita'' =
      Inr (hostname \<lparr>hostname = ''x.com'', pathname = ''/eshita''\<rparr> @
           pathname \<lparr>hostname = ''x.com'', pathname = ''/eshita''\<rparr>)"
    by (rule getSourceLabel_total [of example_URL "''https://x.com/eshita''"
          "\<lparr>hostname = ''x.com'', pathname = ''/eshita''\<rparr>" TypeError,
          THEN conjunct1, THEN mp, OF ok])
  have l2: "getSourceLabel example_URL ''see the statute'' = Inr ''see the statute''"
    by (rule getSourceLabel_total [of example_URL "''see the statute''"
          "\<lparr>hostname = [], pathname = []\<rparr>" TypeError,
          THEN conjunct2, THEN conjunct1, THEN mp, OF bad])
  from ok bad l1 l2 show ?thesis
    by simp
qed

section \<open>Properties of the selection state holder\<close>

lemma set_filter_Boolean:
  "set (filter_Boolean xs) = {s. s \<noteq> [] \<and> Some s \<in> set xs}"
  by (induction xs rule: filter_Boolean.induct) auto

lemma set_allLastUpdated: "set (allLastUpdated statesData) = present_dates statesData"
  by (simp add: allLastUpdated_def set_filter_Boolean present_dates_def image_image)

lemma sorted_last_Max:
  fixes xs :: "'a::linorder list"
  assumes "sorted xs" "xs \<noteq> []"
  shows "last xs = Max (set xs)"
proof -
  have "y \<le> last xs" if "y \<in> set xs" for y
    using assms(1) that
  proof (induction xs)
    case Nil
    then show ?case by simp
  next
    case (Cons x xs)
    then show ?case
      by (cases "xs = []") auto
  qed
  then show ?thesis
    using assms(2) by (intro Max_eqI [symmetric]) simp_all
qed

text \<open>
  The latest date: the greatest date the dataset holds, in the order of strings, and
  the fixed date when it holds none.
\<close>

lemma latestDataDate_Max:
  "latestDataDate statesData =
     (if present_dates statesData = {} then ''2026-02-11'' else Max (present_dates statesData))"
proof (cases "allLastUpdated statesData = []")
  case True
  then have "present_dates statesData = {}"
    using set_allLastUpdated [of statesData] by simp
  with True show ?thesis
    by (simp add: latestDataDate_def)
next
  case False
  have "sorted (allLastUpdated statesData)"
    by (simp add: allLastUpdated_def)
  from sorted_last_Max [OF this False]
  have lst: "last (allLastUpdated statesData) = Max (present_dates statesData)"
    by (simp add: set_allLastUpdated)
  from False have ne: "present_dates statesData \<noteq> {}"
    using set_allLastUpdated [of statesData] by auto
  have "finite (present_dates statesData)"
    using set_allLastUpdated [of statesData, symmetric] by simp
  from Max_in [OF this ne] have "Max (present_dates statesData) \<noteq> []"
    by (simp add: present_dates_def)
  with False lst ne show ?thesis
    by (simp add: latestDataDate_def Let_def)
qed

text \<open>
  What the holder resolves for an abbreviation with no entry in the states map that is
  not a name of \<open>Object_prototype_names\<close>: the synthesized record, with the name of the
  state-name table or \<open>Unknown\<close>.
\<close>

lemma selectedState_synthesized:
  assumes "map_of statesData abbr = None" and "abbr \<notin> set Object_prototype_names"
  shows "\<exists>r. selectedState statesData ALL_STATES abbr = Rec r \<and>
      name r = (case ALL_STATES abbr of None \<Rightarrow> ''Unknown''
                | Some n \<Rightarrow> if n = [] then ''Unknown'' else n) \<and>
      status r = Some ''federal_default'' \<and> sources r = [] \<and>
      take (length (name r)) (summary r) = name r \<and> summary r \<noteq> [] \<and>
      keyLaws r \<noteq> [] \<and> recentDevelopments r \<noteq> [] \<and>
      lastUpdated r = Some (latestDataDate statesData)"
proof -
  from assms have none: "get_prop (record_table statesData) abbr = Undefined"
    by (simp add: get_prop_def record_table_def Object_prototype_def)
  from assms(2) have nm: "ToString (js_or (get_prop (string_table ALL_STATES) abbr) (Str ''Unknown''))
      = (case ALL_STATES abbr of None \<Rightarrow> ''Unknown'' | Some n \<Rightarrow> if n = [] then ''Unknown'' else n)"
    by (cases "ALL_STATES abbr") (simp_all add: get_prop_string_table js_or_def)
  show ?thesis
    unfolding selectedState_def none Let_def nm by simp
qed


section \<open>Properties of the date formatter\<close>















end
